theory Spec2Isabelle
  imports Complex_Main
begin

section \<open>DeepXCheck: a shallow embedding of \<^verbatim>\<open>deepxcheck.py\<close>\<close>

text \<open>
  The class \<^verbatim>\<open>DeepXCheck\<close> keeps its working data in instance attributes
  (\<^verbatim>\<open>self.red_flags\<close>, \<^verbatim>\<open>self.score\<close>, ...). The embedding passes the
  instance explicitly: every method takes the instance and returns the updated one.
  A Python exception is a value \<open>Inl e\<close> of the result type \<open>error + 'a\<close>.

  Conventions of the model:
  \<^item> Text is ASCII. Python's \<^verbatim>\<open>str.lower\<close>, \<^verbatim>\<open>str.title\<close> and the regular
    expression class \<^verbatim>\<open>\w\<close> are modelled on the ASCII letters, digits and the
    underscore, where they agree with Python. The pictographs that open the
    recommendation strings and the expert disclaimer are left out of the literals.
  \<^item> The profile dictionary is a record of optional fields: \<open>None\<close> is an absent
    key, \<open>Some v\<close> a key holding a value of the field's type. A value of another
    type under a key is outside the model.
  \<^item> Counts are Python's unbounded integers (\<open>int\<close>). The quotient
    \<^verbatim>\<open>following / followers\<close> is the exact rational. Python computes a float:
    for counts below \<open>2 ^ 50\<close> its comparison with 10 has the same outcome as the
    rational's. The rounding of the quotient of larger counts, and the
    \<^verbatim>\<open>OverflowError\<close> of a quotient beyond the range of a float, are outside the
    model.
  \<^item> An f-string is the list of its parts (literal text and interpolated values).
\<close>

subsection \<open>Errors\<close>

datatype error = ZeroDivisionError | KeyError | AttributeError

definition bind :: "error + 'a \<Rightarrow> ('a \<Rightarrow> error + 'b) \<Rightarrow> error + 'b" where
  "bind m f = (case m of Inl e \<Rightarrow> Inl e | Inr x \<Rightarrow> f x)"

text \<open>Reading an instance attribute that was never assigned raises \<^verbatim>\<open>AttributeError\<close>.\<close>

definition attr :: "'a option \<Rightarrow> error + 'a" where
  "attr v = (case v of None \<Rightarrow> Inl AttributeError | Some x \<Rightarrow> Inr x)"

text \<open>\<^verbatim>\<open>d[key]\<close> raises \<^verbatim>\<open>KeyError\<close> on an absent key; \<^verbatim>\<open>d.get(key, default)\<close> does not.\<close>

definition item :: "'a option \<Rightarrow> error + 'a" where
  "item v = (case v of None \<Rightarrow> Inl KeyError | Some x \<Rightarrow> Inr x)"

definition dict_get :: "'a option \<Rightarrow> 'a \<Rightarrow> 'a" where
  "dict_get v dflt = (case v of None \<Rightarrow> dflt | Some x \<Rightarrow> x)"

text \<open>\<^verbatim>\<open>a / b\<close> on integers: true division, \<^verbatim>\<open>ZeroDivisionError\<close> when \<open>b = 0\<close>.\<close>

definition true_div :: "int \<Rightarrow> int \<Rightarrow> error + rat" where
  "true_div a b = (if b = 0 then Inl ZeroDivisionError else Inr (of_int a / of_int b))"

subsection \<open>Strings\<close>

definition ascii_uppercase :: string where
  "ascii_uppercase = ''ABCDEFGHIJKLMNOPQRSTUVWXYZ''"

definition ascii_lowercase :: string where
  "ascii_lowercase = ''abcdefghijklmnopqrstuvwxyz''"

definition ascii_digits :: string where
  "ascii_digits = ''0123456789''"

definition is_upper :: "char \<Rightarrow> bool" where
  "is_upper c = (c \<in> set ascii_uppercase)"

definition is_lower :: "char \<Rightarrow> bool" where
  "is_lower c = (c \<in> set ascii_lowercase)"

definition is_digit :: "char \<Rightarrow> bool" where
  "is_digit c = (c \<in> set ascii_digits)"

definition is_alpha :: "char \<Rightarrow> bool" where
  "is_alpha c = (is_upper c \<or> is_lower c)"

text \<open>The class \<^verbatim>\<open>\w\<close> of the regular expressions.\<close>

definition is_word :: "char \<Rightarrow> bool" where
  "is_word c = (is_alpha c \<or> is_digit c \<or> c = CHR ''_'')"

definition lower_char :: "char \<Rightarrow> char" where
  "lower_char c =
     (case map_of (zip ascii_uppercase ascii_lowercase) c of None \<Rightarrow> c | Some l \<Rightarrow> l)"

definition upper_char :: "char \<Rightarrow> char" where
  "upper_char c =
     (case map_of (zip ascii_lowercase ascii_uppercase) c of None \<Rightarrow> c | Some u \<Rightarrow> u)"

definition lower :: "string \<Rightarrow> string" where
  "lower s = map lower_char s"

text \<open>
  \<^verbatim>\<open>str.title\<close>: a letter that follows a letter is lower-cased, any other letter is
  upper-cased. The flag records whether the previous character was a letter.
\<close>

fun title_from :: "bool \<Rightarrow> string \<Rightarrow> string" where
  "title_from prev [] = []"
| "title_from prev (c # cs) =
     (if is_alpha c then (if prev then lower_char c else upper_char c) # title_from True cs
      else c # title_from False cs)"

definition title :: "string \<Rightarrow> string" where
  "title s = title_from False s"

text \<open>\<^verbatim>\<open>text.startswith(pattern)\<close> and \<^verbatim>\<open>pattern in text\<close>.\<close>

fun startswith :: "string \<Rightarrow> string \<Rightarrow> bool" where
  "startswith text [] = True"
| "startswith [] (p # ps) = False"
| "startswith (c # cs) (p # ps) = (c = p \<and> startswith cs ps)"

fun contains :: "string \<Rightarrow> string \<Rightarrow> bool" where
  "contains [] pattern = (pattern = [])"
| "contains (c # cs) pattern = (startswith (c # cs) pattern \<or> contains cs pattern)"

text \<open>\<^verbatim>\<open>sep.join(items)\<close>.\<close>

fun join :: "string \<Rightarrow> string list \<Rightarrow> string" where
  "join sep [] = []"
| "join sep [x] = x"
| "join sep (x # y # ys) = x @ sep @ join sep (y # ys)"

subsection \<open>The data model\<close>

text \<open>The profile dictionary handed to \<^verbatim>\<open>analyze_profile\<close>.\<close>

record profile =
  username :: "string option"
  display_name :: "string option"
  bio :: "string option"
  declared_location :: "string option"
  technical_location :: "string option"
  device :: "string option"
  join_date :: "string option"
  name_changes :: "int option"
  last_name_change :: "string option"
  following :: "int option"
  followers :: "int option"
  shared_channels :: "string list option"
  like_fishing :: "bool option"

text \<open>The parts of an f-string; \<open>Fixed1\<close> is a number formatted with \<^verbatim>\<open>:.1f\<close>.\<close>

datatype fpart = Lit string | StrV string | IntV int | Fixed1 rat

text \<open>A red flag: the dictionary with the keys type, severity, message, score_impact.\<close>

record red_flag =
  flag_type :: string
  severity :: string
  message :: "fpart list"
  score_impact :: int

text \<open>The instance. \<open>profile_data\<close> and \<open>mode\<close> exist only once
  \<^verbatim>\<open>analyze_profile\<close> has assigned them.\<close>

record deepxcheck =
  version :: string
  red_flags :: "red_flag list"
  score :: int
  max_score :: int
  analysis_date :: string
  profile_data :: "profile option"
  mode :: "string option"

text \<open>The report and its two inner dictionaries.\<close>

record meta =
  tool :: string
  meta_version :: string
  meta_mode :: string
  meta_analysis_date :: string
  disclaimer :: string

record risk_assessment =
  ra_score :: int
  level :: string
  red_flags_count :: nat

record report =
  report_meta :: meta
  report_risk_assessment :: risk_assessment
  report_profile :: profile
  report_red_flags :: "red_flag list"
  recommendations :: "string list"

text \<open>\<^verbatim>\<open>__init__\<close>; \<open>now\<close> is the formatted clock reading.\<close>

definition init :: "string \<Rightarrow> deepxcheck" where
  "init now =
     \<lparr>version = ''1.0'', red_flags = [], score = 0, max_score = 10,
      analysis_date = now, profile_data = None, mode = None\<rparr>"

text \<open>\<^verbatim>\<open>self.red_flags.append(flag)\<close>.\<close>

definition append_flag :: "deepxcheck \<Rightarrow> red_flag \<Rightarrow> deepxcheck" where
  "append_flag self flag = self\<lparr>red_flags := red_flags self @ [flag]\<rparr>"

subsection \<open>The eight checks\<close>

definition us_indicators :: "string list" where
  "us_indicators =
     [''usa'', ''united states'', ''new york'', ''california'', ''texas'',
      ''pennsylvania'', ''memphis'', ''boston'', ''ma'', ''pa'', ''tn'']"

definition nigeria_indicators :: "string list" where
  "nigeria_indicators = [''nigeria'', ''ng'', ''lagos'', ''abuja'', ''ikeja'']"

definition check_geo_inconsistency :: "deepxcheck \<Rightarrow> error + deepxcheck" where
  "check_geo_inconsistency self =
     bind (attr (profile_data self)) (\<lambda>pd.
       let declared = lower (dict_get (declared_location pd) []);
           tech_location = lower (dict_get (technical_location pd) []);
           device = dict_get (device pd) []
       in if declared = [] \<or> tech_location = [] then Inr self
          else
            let is_declared_us = list_ex (\<lambda>indicator. contains declared indicator) us_indicators;
                is_tech_nigeria =
                  list_ex (\<lambda>indicator. contains tech_location indicator) nigeria_indicators
            in if is_declared_us \<and> is_tech_nigeria
               then Inr (append_flag self
                 \<lparr>flag_type = ''geo_inconsistency'', severity = ''high'',
                  message = [Lit ''Declared location: '', StrV (title declared),
                             Lit '', Technical location: '', StrV (title tech_location)],
                  score_impact = 3\<rparr>)
               else Inr self)"

definition check_account_age :: "deepxcheck \<Rightarrow> error + deepxcheck" where
  "check_account_age self =
     bind (attr (profile_data self)) (\<lambda>pd.
       let jd = dict_get (join_date pd) []
       in if contains jd ''2024'' \<or> contains jd ''2023''
          then
            let fl = dict_get (followers pd) 0
            in if fl > 1000
               then Inr (append_flag self
                 \<lparr>flag_type = ''suspicious_growth'', severity = ''medium'',
                  message = [Lit ''Recent account ('', StrV jd, Lit '') with '', IntV fl,
                             Lit '' followers''],
                  score_impact = 2\<rparr>)
               else Inr self
          else Inr self)"

definition check_name_changes :: "deepxcheck \<Rightarrow> error + deepxcheck" where
  "check_name_changes self =
     bind (attr (profile_data self)) (\<lambda>pd.
       let nc = dict_get (name_changes pd) 0;
           last_change = dict_get (last_name_change pd) []
       in if nc \<ge> 3
          then Inr (append_flag self
            \<lparr>flag_type = ''identity_instability'', severity = ''medium'',
             message = [IntV nc, Lit '' username changes, last: '', StrV last_change],
             score_impact = 2\<rparr>)
          else Inr self)"

definition telegram_patterns :: "string list" where
  "telegram_patterns = [''t.me/'', ''telegram'', ''tg://'', ''joinchat/'']"

text \<open>The loop over the patterns: the first pattern found appends the flag and breaks.\<close>

fun telegram_loop :: "string list \<Rightarrow> string \<Rightarrow> deepxcheck \<Rightarrow> deepxcheck" where
  "telegram_loop [] b self = self"
| "telegram_loop (pattern # rest) b self =
     (if contains b pattern
      then append_flag self
        \<lparr>flag_type = ''telegram_promotion'', severity = ''medium'',
         message = [Lit ''Telegram link found in bio (common for coordinated groups)''],
         score_impact = 2\<rparr>
      else telegram_loop rest b self)"

definition check_telegram_links :: "deepxcheck \<Rightarrow> error + deepxcheck" where
  "check_telegram_links self =
     bind (attr (profile_data self)) (\<lambda>pd.
       let b = lower (dict_get (bio pd) [])
       in Inr (telegram_loop telegram_patterns b self))"

definition scam_keywords :: "string list" where
  "scam_keywords =
     [''blessed'', ''blessing'', ''cashapp'', ''paypal'', ''apple pay'',
      ''send me'', ''dm me'', ''instant money'', ''get paid'',
      ''nfa'', ''not financial advice'', ''alpha'', ''signal'',
      ''pump'', ''moon'', ''100x'', ''financial freedom'']"

text \<open>The loop that collects the keywords found, in the order of the list.\<close>

fun keyword_loop :: "string list \<Rightarrow> string \<Rightarrow> string list \<Rightarrow> string list" where
  "keyword_loop [] b found_keywords = found_keywords"
| "keyword_loop (keyword # rest) b found_keywords =
     keyword_loop rest b
       (if contains b keyword then found_keywords @ [keyword] else found_keywords)"

definition check_suspicious_bio :: "deepxcheck \<Rightarrow> error + deepxcheck" where
  "check_suspicious_bio self =
     bind (attr (profile_data self)) (\<lambda>pd.
       let b = lower (dict_get (bio pd) []);
           found_keywords = keyword_loop scam_keywords b []
       in if found_keywords \<noteq> []
          then Inr (append_flag self
            \<lparr>flag_type = ''suspicious_bio'', severity = ''medium'',
             message = [Lit ''Bio contains suspicious keywords: '',
                        StrV (join '', '' found_keywords)],
             score_impact = (if length found_keywords < 3 then 1 else 2)\<rparr>)
          else Inr self)"

definition check_follow_ratio :: "deepxcheck \<Rightarrow> error + deepxcheck" where
  "check_follow_ratio self =
     bind (attr (profile_data self)) (\<lambda>pd.
       let fg = dict_get (following pd) 0;
           fl = dict_get (followers pd) 0
       in if fl > 0
          then bind (true_div fg fl) (\<lambda>ratio.
            if ratio > 10
            then Inr (append_flag self
              \<lparr>flag_type = ''unbalanced_ratio'', severity = ''low'',
               message = [Lit ''Following '', IntV fg, Lit '' but only '', IntV fl,
                          Lit '' followers (ratio: '', Fixed1 ratio, Lit '')''],
               score_impact = 1\<rparr>)
            else Inr self)
          else Inr self)"

definition check_coordination_patterns :: "deepxcheck \<Rightarrow> error + deepxcheck" where
  "check_coordination_patterns self =
     bind (attr (profile_data self)) (\<lambda>pd.
       let sc = dict_get (shared_channels pd) []
       in if length sc \<ge> 2
          then Inr (append_flag self
            \<lparr>flag_type = ''coordinated_network'', severity = ''high'',
             message = [Lit ''Shares '', IntV (int (length sc)),
                        Lit '' channels with other suspicious accounts''],
             score_impact = 3\<rparr>)
          else Inr self)"

definition check_like_behavior :: "deepxcheck \<Rightarrow> error + deepxcheck" where
  "check_like_behavior self =
     bind (attr (profile_data self)) (\<lambda>pd.
       let lf = dict_get (like_fishing pd) False
       in if lf
          then Inr (append_flag self
            \<lparr>flag_type = ''like_fishing'', severity = ''medium'',
             message = [Lit ''Uses likes to attract attention before DM scams''],
             score_impact = 2\<rparr>)
          else Inr self)"

subsection \<open>The score\<close>

text \<open>The loop \<^verbatim>\<open>for flag in self.red_flags: base_score += flag['score_impact']\<close>.\<close>

fun score_loop :: "red_flag list \<Rightarrow> int \<Rightarrow> int" where
  "score_loop [] base_score = base_score"
| "score_loop (flag # rest) base_score = score_loop rest (base_score + score_impact flag)"

definition calculate_score :: "deepxcheck \<Rightarrow> deepxcheck" where
  "calculate_score self =
     (let base_score = score_loop (red_flags self) 0
      in self\<lparr>score := min base_score (max_score self)\<rparr>)"

subsection \<open>The report\<close>

text \<open>
  \<^verbatim>\<open>re.sub(r'@\w+', '@[USER]', text)\<close>: scanning from the left, an \<open>@\<close> followed by
  at least one word character is replaced, together with the longest run of word
  characters after it; every other character is copied.
\<close>

function sub_user :: "string \<Rightarrow> string" where
  "sub_user [] = []"
| "sub_user (c # cs) =
     (if c = CHR ''@'' \<and> takeWhile is_word cs \<noteq> []
      then ''@[USER]'' @ sub_user (dropWhile is_word cs)
      else c # sub_user cs)"
  by pat_completeness auto
termination
  by (relation "measure length") (auto simp: length_dropWhile_le less_Suc_eq_le)

text \<open>
  \<^verbatim>\<open>re.sub(r't\.me/\w+', 't.me/[CHANNEL]', text)\<close>: the literal \<open>t.me/\<close> followed by at
  least one word character is replaced, with the longest run of word characters.
\<close>

function sub_channel :: "string \<Rightarrow> string" where
  "sub_channel [] = []"
| "sub_channel (c # cs) =
     (if startswith (c # cs) ''t.me/'' \<and> takeWhile is_word (drop 5 (c # cs)) \<noteq> []
      then ''t.me/[CHANNEL]'' @ sub_channel (dropWhile is_word (drop 5 (c # cs)))
      else c # sub_channel cs)"
  by pat_completeness auto
termination
proof (relation "measure length")
  show "wf (measure (length :: string \<Rightarrow> nat))" by simp
next
  fix c :: char and cs :: string
  assume "startswith (c # cs) ''t.me/'' \<and> takeWhile is_word (drop 5 (c # cs)) \<noteq> []"
  have "length (dropWhile is_word (drop 5 (c # cs))) \<le> length (drop 5 (c # cs))"
    by (rule length_dropWhile_le)
  also have "\<dots> < length (c # cs)" by simp
  finally show "(dropWhile is_word (drop 5 (c # cs)), c # cs) \<in> measure length" by simp
next
  fix c :: char and cs :: string
  show "(cs, c # cs) \<in> measure length" by simp
qed

definition anonymize_profile :: "deepxcheck \<Rightarrow> error + profile" where
  "anonymize_profile self =
     bind (attr (profile_data self)) (\<lambda>anon.
       let anon = (if username anon \<noteq> None
                   then anon\<lparr>username := Some ''@[REDACTED]''\<rparr> else anon);
           anon = (if display_name anon \<noteq> None
                   then anon\<lparr>display_name := Some ''[ANONYMIZED]''\<rparr> else anon)
       in if bio anon \<noteq> None
          then bind (item (bio anon)) (\<lambda>b.
            let anon = anon\<lparr>bio := Some (sub_user b)\<rparr>
            in bind (item (bio anon)) (\<lambda>b.
              Inr (anon\<lparr>bio := Some (sub_channel b)\<rparr>)))
          else Inr anon)"

definition partial_anonymize :: "deepxcheck \<Rightarrow> error + profile" where
  "partial_anonymize self =
     bind (attr (profile_data self)) (\<lambda>partial.
       if username partial \<noteq> None
       then bind (item (username partial)) (\<lambda>u.
         if length u > 4
         then Inr (partial\<lparr>username := Some (take 2 u @ ''***'' @ drop (length u - 2) u)\<rparr>)
         else Inr partial)
       else Inr partial)"

definition get_risk_level :: "deepxcheck \<Rightarrow> string" where
  "get_risk_level self =
     (if score self \<ge> 8 then ''CRITICAL''
      else if score self \<ge> 6 then ''HIGH''
      else if score self \<ge> 4 then ''MEDIUM''
      else if score self \<ge> 2 then ''LOW''
      else ''MINIMAL'')"

definition generate_recommendations :: "deepxcheck \<Rightarrow> string list" where
  "generate_recommendations self =
     (let recs = [];
          recs = (if score self \<ge> 6
                  then recs @ [''Avoid any financial interaction with this account'',
                               ''Report if promoting scams or manipulation'']
                  else recs);
          recs = (if list_ex (\<lambda>f. flag_type f = ''geo_inconsistency'') (red_flags self)
                  then recs @ [''Verify geographical claims before trust''] else recs);
          recs = (if list_ex (\<lambda>f. flag_type f = ''telegram_promotion'') (red_flags self)
                  then recs @ [''Be cautious of Telegram groups promising quick gains'']
                  else recs);
          recs = (if list_ex (\<lambda>f. flag_type f = ''like_fishing'') (red_flags self)
                  then recs @ [''Likes can be bait - check profile before engaging'']
                  else recs);
          recs = (if length recs = 0
                  then recs @ [''Profile appears normal - maintain standard vigilance'']
                  else recs)
      in recs)"

text \<open>The two disclaimers. The expert text is the indented, multi-line literal.\<close>

definition expert_disclaimer :: string where
  "expert_disclaimer =
     concat (map (\<lambda>line. CHR 0x0A # replicate 12 CHR '' '' @ line)
       [''EXPERT MODE - IDENTIFYING DATA VISIBLE'',
        ''This report contains identifying information.'',
        ''Public sharing may have legal and ethical consequences.'',
        ''Use responsibly for documentation purposes only.'',
        ''''])"

definition educational_disclaimer :: string where
  "educational_disclaimer = ''Educational analysis - patterns anonymized''"

definition generate_report :: "deepxcheck \<Rightarrow> error + report" where
  "generate_report self =
     bind (attr (mode self)) (\<lambda>m.
       let disclaimer_text =
             (if m = ''expert'' then expert_disclaimer else educational_disclaimer)
       in bind (if m = ''discovery'' then anonymize_profile self
                else if m = ''investigation'' then partial_anonymize self
                else attr (profile_data self)) (\<lambda>profile_display.
            Inr \<lparr>report_meta =
                   \<lparr>tool = ''DeepXCheck'', meta_version = version self, meta_mode = m,
                    meta_analysis_date = analysis_date self,
                    disclaimer = disclaimer_text\<rparr>,
                 report_risk_assessment =
                   \<lparr>ra_score = score self, level = get_risk_level self,
                    red_flags_count = length (red_flags self)\<rparr>,
                 report_profile = profile_display,
                 report_red_flags = red_flags self,
                 recommendations = generate_recommendations self\<rparr>))"

subsection \<open>The entry point\<close>

definition analyze_profile ::
  "deepxcheck \<Rightarrow> profile \<Rightarrow> string \<Rightarrow> error + report \<times> deepxcheck" where
  "analyze_profile self pd m =
     (let self = self\<lparr>profile_data := Some pd, mode := Some m, red_flags := [], score := 0\<rparr>
      in bind (check_geo_inconsistency self) (\<lambda>self.
         bind (check_account_age self) (\<lambda>self.
         bind (check_name_changes self) (\<lambda>self.
         bind (check_telegram_links self) (\<lambda>self.
         bind (check_suspicious_bio self) (\<lambda>self.
         bind (check_follow_ratio self) (\<lambda>self.
         bind (check_coordination_patterns self) (\<lambda>self.
         bind (check_like_behavior self) (\<lambda>self.
           let self = calculate_score self
           in bind (generate_report self) (\<lambda>r. Inr (r, self)))))))))))"

text \<open>
  An instance that is reused: a sequence of calls of \<^verbatim>\<open>analyze_profile\<close>, each on
  the instance the previous call left.
\<close>

fun analyze_all :: "deepxcheck \<Rightarrow> (profile \<times> string) list \<Rightarrow> error + deepxcheck" where
  "analyze_all self [] = Inr self"
| "analyze_all self ((pd, m) # calls) =
     bind (analyze_profile self pd m) (\<lambda>(r, self). analyze_all self calls)"

section \<open>What the checks compute\<close>

text \<open>
  Each check leaves the instance as it is but for \<open>red_flags\<close>, to which it appends.
  The functions below give, for each check, the flags it appends as a function of the
  profile; the lemmas further down show that the checks compute exactly these and
  raise nothing once \<open>profile_data\<close> is assigned.
\<close>

definition flags_geo_inconsistency :: "profile \<Rightarrow> red_flag list" where
  "flags_geo_inconsistency pd =
     (let declared = lower (dict_get (declared_location pd) []);
          tech_location = lower (dict_get (technical_location pd) [])
      in if declared \<noteq> [] \<and> tech_location \<noteq> [] \<and>
            list_ex (contains declared) us_indicators \<and>
            list_ex (contains tech_location) nigeria_indicators
         then [\<lparr>flag_type = ''geo_inconsistency'', severity = ''high'',
                message = [Lit ''Declared location: '', StrV (title declared),
                           Lit '', Technical location: '', StrV (title tech_location)],
                score_impact = 3\<rparr>]
         else [])"

definition flags_account_age :: "profile \<Rightarrow> red_flag list" where
  "flags_account_age pd =
     (let jd = dict_get (join_date pd) []; fl = dict_get (followers pd) 0
      in if (contains jd ''2024'' \<or> contains jd ''2023'') \<and> fl > 1000
         then [\<lparr>flag_type = ''suspicious_growth'', severity = ''medium'',
                message = [Lit ''Recent account ('', StrV jd, Lit '') with '', IntV fl,
                           Lit '' followers''],
                score_impact = 2\<rparr>]
         else [])"

definition flags_name_changes :: "profile \<Rightarrow> red_flag list" where
  "flags_name_changes pd =
     (let nc = dict_get (name_changes pd) 0
      in if nc \<ge> 3
         then [\<lparr>flag_type = ''identity_instability'', severity = ''medium'',
                message = [IntV nc, Lit '' username changes, last: '',
                           StrV (dict_get (last_name_change pd) [])],
                score_impact = 2\<rparr>]
         else [])"

definition flags_telegram_links :: "profile \<Rightarrow> red_flag list" where
  "flags_telegram_links pd =
     (if list_ex (contains (lower (dict_get (bio pd) []))) telegram_patterns
      then [\<lparr>flag_type = ''telegram_promotion'', severity = ''medium'',
             message = [Lit ''Telegram link found in bio (common for coordinated groups)''],
             score_impact = 2\<rparr>]
      else [])"

definition found_keywords_of :: "profile \<Rightarrow> string list" where
  "found_keywords_of pd = filter (contains (lower (dict_get (bio pd) []))) scam_keywords"

definition flags_suspicious_bio :: "profile \<Rightarrow> red_flag list" where
  "flags_suspicious_bio pd =
     (if found_keywords_of pd \<noteq> []
      then [\<lparr>flag_type = ''suspicious_bio'', severity = ''medium'',
             message = [Lit ''Bio contains suspicious keywords: '',
                        StrV (join '', '' (found_keywords_of pd))],
             score_impact = (if length (found_keywords_of pd) < 3 then 1 else 2)\<rparr>]
      else [])"

definition flags_follow_ratio :: "profile \<Rightarrow> red_flag list" where
  "flags_follow_ratio pd =
     (let fg = dict_get (following pd) 0; fl = dict_get (followers pd) 0
      in if fl > 0 \<and> (of_int fg / of_int fl :: rat) > 10
         then [\<lparr>flag_type = ''unbalanced_ratio'', severity = ''low'',
                message = [Lit ''Following '', IntV fg, Lit '' but only '', IntV fl,
                           Lit '' followers (ratio: '', Fixed1 (of_int fg / of_int fl),
                           Lit '')''],
                score_impact = 1\<rparr>]
         else [])"

definition flags_coordination_patterns :: "profile \<Rightarrow> red_flag list" where
  "flags_coordination_patterns pd =
     (let sc = dict_get (shared_channels pd) []
      in if length sc \<ge> 2
         then [\<lparr>flag_type = ''coordinated_network'', severity = ''high'',
                message = [Lit ''Shares '', IntV (int (length sc)),
                           Lit '' channels with other suspicious accounts''],
                score_impact = 3\<rparr>]
         else [])"

definition flags_like_behavior :: "profile \<Rightarrow> red_flag list" where
  "flags_like_behavior pd =
     (if dict_get (like_fishing pd) False
      then [\<lparr>flag_type = ''like_fishing'', severity = ''medium'',
             message = [Lit ''Uses likes to attract attention before DM scams''],
             score_impact = 2\<rparr>]
      else [])"

text \<open>The flags of a whole run, in detection order.\<close>

definition all_flags :: "profile \<Rightarrow> red_flag list" where
  "all_flags pd =
     flags_geo_inconsistency pd @ flags_account_age pd @ flags_name_changes pd @
     flags_telegram_links pd @ flags_suspicious_bio pd @ flags_follow_ratio pd @
     flags_coordination_patterns pd @ flags_like_behavior pd"

text \<open>The profile views of the three branches of the report.\<close>

definition anonymized :: "profile \<Rightarrow> profile" where
  "anonymized pd =
     pd\<lparr>username := map_option (\<lambda>_. ''@[REDACTED]'') (username pd),
        display_name := map_option (\<lambda>_. ''[ANONYMIZED]'') (display_name pd),
        bio := map_option (\<lambda>b. sub_channel (sub_user b)) (bio pd)\<rparr>"

definition mask :: "string \<Rightarrow> string" where
  "mask u = (if length u > 4 then take 2 u @ ''***'' @ drop (length u - 2) u else u)"

definition partially_anonymized :: "profile \<Rightarrow> profile" where
  "partially_anonymized pd = pd\<lparr>username := map_option mask (username pd)\<rparr>"

definition profile_view :: "string \<Rightarrow> profile \<Rightarrow> profile" where
  "profile_view m pd =
     (if m = ''discovery'' then anonymized pd
      else if m = ''investigation'' then partially_anonymized pd
      else pd)"

text \<open>The instance as a run of \<^verbatim>\<open>analyze_profile\<close> leaves it.\<close>

definition analyzed :: "deepxcheck \<Rightarrow> profile \<Rightarrow> string \<Rightarrow> deepxcheck" where
  "analyzed self pd m =
     self\<lparr>profile_data := Some pd, mode := Some m, red_flags := all_flags pd,
          score := min (sum_list (map score_impact (all_flags pd))) (max_score self)\<rparr>"

definition report_of :: "deepxcheck \<Rightarrow> profile \<Rightarrow> string \<Rightarrow> report" where
  "report_of self pd m =
     \<lparr>report_meta =
        \<lparr>tool = ''DeepXCheck'', meta_version = version self, meta_mode = m,
         meta_analysis_date = analysis_date self,
         disclaimer = (if m = ''expert'' then expert_disclaimer else educational_disclaimer)\<rparr>,
      report_risk_assessment =
        \<lparr>ra_score = score (analyzed self pd m), level = get_risk_level (analyzed self pd m),
         red_flags_count = length (all_flags pd)\<rparr>,
      report_profile = profile_view m pd,
      report_red_flags = all_flags pd,
      recommendations = generate_recommendations (analyzed self pd m)\<rparr>"

text \<open>A reused instance: the calls run one after another, none raises.\<close>

definition reused :: "deepxcheck \<Rightarrow> (profile \<times> string) list \<Rightarrow> deepxcheck" where
  "reused self calls = foldl (\<lambda>s (pd, m). analyzed s pd m) self calls"

section \<open>Records and predicates of the statements\<close>

text \<open>
  The records that the statements evaluate, the predicates in which the statements are
  phrased, and the rule for the recommendations in the words of the specification.

  A record on which all eight checks fire; its impacts sum to 17, above the cap.
\<close>

definition all_firing :: profile where
  "all_firing =
     \<lparr>username = Some ''@promo'', display_name = Some ''Promo'',
      bio = Some ''Telegram alpha signal pump'',
      declared_location = Some ''Texas'', technical_location = Some ''Lagos'',
      device = None, join_date = Some ''2023'', name_changes = Some 3,
      last_name_change = None, following = Some 50000, followers = Some 2000,
      shared_channels = Some [''a'', ''b''], like_fishing = Some True\<rparr>"

text \<open>The record of the scenario: only the listed keys are present.\<close>

definition scenario :: profile where
  "scenario =
     \<lparr>username = None, display_name = None,
      bio = Some ''Follow me on t.me/test for signals!'',
      declared_location = Some ''New York, USA'',
      technical_location = Some ''Nigeria'',
      device = None, join_date = Some ''November 2024'',
      name_changes = None, last_name_change = None,
      following = Some 10, followers = Some 100,
      shared_channels = Some [''t.me/test''], like_fishing = Some True\<rparr>"

definition scenario_flags :: "red_flag list" where
  "scenario_flags =
     [\<lparr>flag_type = ''geo_inconsistency'', severity = ''high'',
       message = [Lit ''Declared location: '', StrV ''New York, Usa'',
                  Lit '', Technical location: '', StrV ''Nigeria''],
       score_impact = 3\<rparr>,
      \<lparr>flag_type = ''telegram_promotion'', severity = ''medium'',
       message = [Lit ''Telegram link found in bio (common for coordinated groups)''],
       score_impact = 2\<rparr>,
      \<lparr>flag_type = ''suspicious_bio'', severity = ''medium'',
       message = [Lit ''Bio contains suspicious keywords: '', StrV ''signal''],
       score_impact = 1\<rparr>,
      \<lparr>flag_type = ''like_fishing'', severity = ''medium'',
       message = [Lit ''Uses likes to attract attention before DM scams''],
       score_impact = 2\<rparr>]"







text \<open>
  The rule for the recommendations in the words of the specification, as a function of
  the score and of the set of flag types present.
\<close>

definition recommended :: "int \<Rightarrow> string set \<Rightarrow> string list" where
  "recommended s types =
     (let recs =
            (if s \<ge> 6
             then [''Avoid any financial interaction with this account'',
                   ''Report if promoting scams or manipulation'']
             else []) @
            (if ''geo_inconsistency'' \<in> types
             then [''Verify geographical claims before trust''] else []) @
            (if ''telegram_promotion'' \<in> types
             then [''Be cautious of Telegram groups promising quick gains''] else []) @
            (if ''like_fishing'' \<in> types
             then [''Likes can be bait - check profile before engaging''] else [])
      in if recs = [] then [''Profile appears normal - maintain standard vigilance'']
         else recs)"

text \<open>The record with no key at all.\<close>

definition empty_profile :: profile where
  "empty_profile =
     \<lparr>username = None, display_name = None, bio = None, declared_location = None,
      technical_location = None, device = None, join_date = None, name_changes = None,
      last_name_change = None, following = None, followers = None,
      shared_channels = None, like_fishing = None\<rparr>"


section \<open>Lemmas\<close>

text \<open>
  First the methods in closed form: each check, the report and the entry point return
  a value, and which. Then the facts about the two substitutions, the masking and the
  defaults that the claims need.
\<close>

lemmas result_defs = bind_def attr_def item_def

lemma check_geo_inconsistency_eq:
  "profile_data self = Some pd \<Longrightarrow>
   check_geo_inconsistency self =
     Inr (self\<lparr>red_flags := red_flags self @ flags_geo_inconsistency pd\<rparr>)"
  by (simp add: check_geo_inconsistency_def flags_geo_inconsistency_def result_defs
      append_flag_def Let_def)

lemma check_account_age_eq:
  "profile_data self = Some pd \<Longrightarrow>
   check_account_age self = Inr (self\<lparr>red_flags := red_flags self @ flags_account_age pd\<rparr>)"
  by (simp add: check_account_age_def flags_account_age_def result_defs
      append_flag_def Let_def)

lemma check_name_changes_eq:
  "profile_data self = Some pd \<Longrightarrow>
   check_name_changes self = Inr (self\<lparr>red_flags := red_flags self @ flags_name_changes pd\<rparr>)"
  by (simp add: check_name_changes_def flags_name_changes_def result_defs
      append_flag_def Let_def)

lemma telegram_loop_eq:
  "telegram_loop patterns b self =
     (if list_ex (contains b) patterns
      then append_flag self
        \<lparr>flag_type = ''telegram_promotion'', severity = ''medium'',
         message = [Lit ''Telegram link found in bio (common for coordinated groups)''],
         score_impact = 2\<rparr>
      else self)"
  by (induction patterns) simp_all

lemma check_telegram_links_eq:
  "profile_data self = Some pd \<Longrightarrow>
   check_telegram_links self =
     Inr (self\<lparr>red_flags := red_flags self @ flags_telegram_links pd\<rparr>)"
  by (simp add: check_telegram_links_def flags_telegram_links_def result_defs
      telegram_loop_eq append_flag_def Let_def)

lemma keyword_loop_eq: "keyword_loop ks b found = found @ filter (contains b) ks"
  by (induction ks arbitrary: found) simp_all

lemma check_suspicious_bio_eq:
  "profile_data self = Some pd \<Longrightarrow>
   check_suspicious_bio self =
     Inr (self\<lparr>red_flags := red_flags self @ flags_suspicious_bio pd\<rparr>)"
  by (simp add: check_suspicious_bio_def flags_suspicious_bio_def found_keywords_of_def
      result_defs keyword_loop_eq append_flag_def Let_def)

lemma check_follow_ratio_eq:
  "profile_data self = Some pd \<Longrightarrow>
   check_follow_ratio self = Inr (self\<lparr>red_flags := red_flags self @ flags_follow_ratio pd\<rparr>)"
  by (simp add: check_follow_ratio_def flags_follow_ratio_def result_defs true_div_def
      append_flag_def Let_def)

lemma check_coordination_patterns_eq:
  "profile_data self = Some pd \<Longrightarrow>
   check_coordination_patterns self =
     Inr (self\<lparr>red_flags := red_flags self @ flags_coordination_patterns pd\<rparr>)"
  by (simp add: check_coordination_patterns_def flags_coordination_patterns_def result_defs
      append_flag_def Let_def)

lemma check_like_behavior_eq:
  "profile_data self = Some pd \<Longrightarrow>
   check_like_behavior self =
     Inr (self\<lparr>red_flags := red_flags self @ flags_like_behavior pd\<rparr>)"
  by (simp add: check_like_behavior_def flags_like_behavior_def result_defs
      append_flag_def Let_def)

lemma score_loop_eq: "score_loop flags base = base + sum_list (map score_impact flags)"
  by (induction flags arbitrary: base) simp_all

lemma anonymize_profile_eq:
  "profile_data self = Some pd \<Longrightarrow> anonymize_profile self = Inr (anonymized pd)"
  by (cases "username pd"; cases "display_name pd"; cases "bio pd")
     (simp_all add: anonymize_profile_def anonymized_def result_defs Let_def)

lemma partial_anonymize_eq:
  "profile_data self = Some pd \<Longrightarrow> partial_anonymize self = Inr (partially_anonymized pd)"
  by (cases "username pd")
     (simp_all add: partial_anonymize_def partially_anonymized_def mask_def result_defs)

lemma generate_report_eq:
  "profile_data self = Some pd \<Longrightarrow> mode self = Some m \<Longrightarrow>
   generate_report self =
     Inr \<lparr>report_meta =
            \<lparr>tool = ''DeepXCheck'', meta_version = version self, meta_mode = m,
             meta_analysis_date = analysis_date self,
             disclaimer =
               (if m = ''expert'' then expert_disclaimer else educational_disclaimer)\<rparr>,
          report_risk_assessment =
            \<lparr>ra_score = score self, level = get_risk_level self,
             red_flags_count = length (red_flags self)\<rparr>,
          report_profile = profile_view m pd,
          report_red_flags = red_flags self,
          recommendations = generate_recommendations self\<rparr>"
  by (simp add: generate_report_def profile_view_def anonymize_profile_eq
      partial_anonymize_eq result_defs)

lemma analyze_profile_eq:
  "analyze_profile self pd m = Inr (report_of self pd m, analyzed self pd m)"
  by (simp add: analyze_profile_def Let_def bind_def
      check_geo_inconsistency_eq check_account_age_eq check_name_changes_eq
      check_telegram_links_eq check_suspicious_bio_eq check_follow_ratio_eq
      check_coordination_patterns_eq check_like_behavior_eq
      calculate_score_def score_loop_eq generate_report_eq
      report_of_def analyzed_def all_flags_def)

lemma analyze_all_eq: "analyze_all self calls = Inr (reused self calls)"
  by (induction calls arbitrary: self)
     (auto simp: reused_def bind_def analyze_profile_eq)

lemma analyzed_fixed:
  "version (analyzed self pd m) = version self"
  "max_score (analyzed self pd m) = max_score self"
  "analysis_date (analyzed self pd m) = analysis_date self"
  by (simp_all add: analyzed_def)

lemma reused_fixed:
  "version (reused self calls) = version self"
  "max_score (reused self calls) = max_score self"
  "analysis_date (reused self calls) = analysis_date self"
  by (induction calls arbitrary: self) (auto simp: reused_def analyzed_fixed)

text \<open>Every check appends at most one flag, and every impact is 1, 2 or 3.\<close>

lemma length_flags:
  "length (flags_geo_inconsistency pd) \<le> 1"
  "length (flags_account_age pd) \<le> 1"
  "length (flags_name_changes pd) \<le> 1"
  "length (flags_telegram_links pd) \<le> 1"
  "length (flags_suspicious_bio pd) \<le> 1"
  "length (flags_follow_ratio pd) \<le> 1"
  "length (flags_coordination_patterns pd) \<le> 1"
  "length (flags_like_behavior pd) \<le> 1"
  by (simp_all add: flags_geo_inconsistency_def flags_account_age_def flags_name_changes_def
      flags_telegram_links_def flags_suspicious_bio_def flags_follow_ratio_def
      flags_coordination_patterns_def flags_like_behavior_def Let_def)

lemma length_all_flags: "length (all_flags pd) \<le> 8"
  using length_flags [of pd] by (simp add: all_flags_def)

lemma impact_flags:
  "list_all (\<lambda>f. 1 \<le> score_impact f \<and> score_impact f \<le> 3) (flags_geo_inconsistency pd)"
  "list_all (\<lambda>f. 1 \<le> score_impact f \<and> score_impact f \<le> 3) (flags_account_age pd)"
  "list_all (\<lambda>f. 1 \<le> score_impact f \<and> score_impact f \<le> 3) (flags_name_changes pd)"
  "list_all (\<lambda>f. 1 \<le> score_impact f \<and> score_impact f \<le> 3) (flags_telegram_links pd)"
  "list_all (\<lambda>f. 1 \<le> score_impact f \<and> score_impact f \<le> 3) (flags_suspicious_bio pd)"
  "list_all (\<lambda>f. 1 \<le> score_impact f \<and> score_impact f \<le> 3) (flags_follow_ratio pd)"
  "list_all (\<lambda>f. 1 \<le> score_impact f \<and> score_impact f \<le> 3) (flags_coordination_patterns pd)"
  "list_all (\<lambda>f. 1 \<le> score_impact f \<and> score_impact f \<le> 3) (flags_like_behavior pd)"
  by (simp_all add: flags_geo_inconsistency_def flags_account_age_def flags_name_changes_def
      flags_telegram_links_def flags_suspicious_bio_def flags_follow_ratio_def
      flags_coordination_patterns_def flags_like_behavior_def Let_def)

lemma impact_all_flags:
  "list_all (\<lambda>f. 1 \<le> score_impact f \<and> score_impact f \<le> 3) (all_flags pd)"
  using impact_flags [of pd] by (simp add: all_flags_def)

lemma sum_impact_nonneg: "list_all (\<lambda>f. 1 \<le> score_impact f \<and> score_impact f \<le> 3) flags \<Longrightarrow>
   0 \<le> sum_list (map score_impact flags)"
  by (induction flags) auto

lemma sum_all_flags_nonneg: "0 \<le> sum_list (map score_impact (all_flags pd))"
  by (rule sum_impact_nonneg [OF impact_all_flags])



lemmas list_defs = us_indicators_def nigeria_indicators_def telegram_patterns_def scam_keywords_def

lemma all_firing_flags:
  "map flag_type (all_flags all_firing) =
     [''geo_inconsistency'', ''suspicious_growth'', ''identity_instability'',
      ''telegram_promotion'', ''suspicious_bio'', ''unbalanced_ratio'',
      ''coordinated_network'', ''like_fishing''] \<and>
   map score_impact (all_flags all_firing) = [3, 2, 2, 2, 2, 1, 3, 2]"
  by code_simp

lemma all_flags_scenario: "all_flags scenario = scenario_flags"
  by code_simp
















lemma take_two: "4 < length u \<Longrightarrow> take 2 u = [u ! 0, u ! 1]"
  by (cases u; cases "tl u") auto

lemma drop_last_two:
  assumes "4 < length u"
  shows "drop (length u - 2) u = [u ! (length u - 2), u ! (length u - 1)]"
proof -
  let ?n = "length u"
  have "drop (?n - 2) u = u ! (?n - 2) # drop (Suc (?n - 2)) u"
    using assms by (intro Cons_nth_drop_Suc [symmetric]) simp
  also have "Suc (?n - 2) = ?n - 1"
    using assms by simp
  also have "drop (?n - 1) u = u ! (?n - 1) # drop (Suc (?n - 1)) u"
    using assms by (intro Cons_nth_drop_Suc [symmetric]) simp
  also have "drop (Suc (?n - 1)) u = []"
    using assms by simp
  finally show ?thesis .
qed

lemma list_ex_flag_type:
  "list_ex (\<lambda>f. flag_type f = t) flags \<longleftrightarrow> t \<in> set (map flag_type flags)"
  by (auto simp: list_ex_iff)

lemma generate_recommendations_eq:
  "generate_recommendations self =
     recommended (score self) (set (map flag_type (red_flags self)))"
  unfolding generate_recommendations_def recommended_def list_ex_flag_type Let_def
  by simp

lemma all_flags_empty_profile: "all_flags empty_profile = []"
  by code_simp

lemma report_of_cong:
  "version a = version b \<Longrightarrow> max_score a = max_score b \<Longrightarrow>
   analysis_date a = analysis_date b \<Longrightarrow> report_of a pd m = report_of b pd m"
  by (simp add: report_of_def analyzed_def get_risk_level_def generate_recommendations_eq)

lemma report_of_date:
  "version a = version b \<Longrightarrow> max_score a = max_score b \<Longrightarrow>
   report_of b pd m =
     (report_of a pd m)
       \<lparr>report_meta := (report_meta (report_of a pd m))
          \<lparr>meta_analysis_date := analysis_date b\<rparr>\<rparr>"
  by (simp add: report_of_def analyzed_def get_risk_level_def generate_recommendations_eq)






lemma disclaimers_differ:
  "CHR 0x0A \<in> set expert_disclaimer" "CHR 0x0A \<notin> set educational_disclaimer"
  by (simp_all add: expert_disclaimer_def educational_disclaimer_def)

section \<open>The claims\<close>

text \<open>
  C1. On any instance, fresh or reused for any sequence of earlier analyses, and for
  every record and mode, the analysis returns a report whose risk score is the sum of
  the \<open>score_impact\<close> values of the report's red flags, clamped to 10; the score is
  never negative and never above 10.
\<close>

theorem score_is_clamped_sum:
  "\<exists>self r self'.
     analyze_all (init now) calls = Inr self \<and>
     analyze_profile self pd m = Inr (r, self') \<and>
     ra_score (report_risk_assessment r) =
       min (sum_list (map score_impact (report_red_flags r))) 10 \<and>
     0 \<le> ra_score (report_risk_assessment r) \<and>
     ra_score (report_risk_assessment r) \<le> 10"
proof -
  let ?self = "reused (init now) calls"
  have ms: "max_score ?self = 10"
    by (simp add: reused_fixed init_def)
  have "ra_score (report_risk_assessment (report_of ?self pd m)) =
      min (sum_list (map score_impact (all_flags pd))) 10"
    by (simp add: report_of_def analyzed_def ms)
  moreover have "report_red_flags (report_of ?self pd m) = all_flags pd"
    by (simp add: report_of_def)
  moreover note sum_all_flags_nonneg [of pd]
  ultimately show ?thesis
    by (intro exI [of _ ?self] exI [of _ "report_of ?self pd m"]
        exI [of _ "analyzed ?self pd m"])
       (simp add: analyze_all_eq analyze_profile_eq)
qed

theorem score_is_clamped_sum_witness:
  "\<exists>self r self'.
     analyze_all (init []) [(all_firing, ''expert'')] = Inr self \<and>
     analyze_profile self all_firing ''discovery'' = Inr (r, self') \<and>
     sum_list (map score_impact (report_red_flags r)) = 17 \<and>
     ra_score (report_risk_assessment r) = 10"
proof -
  from score_is_clamped_sum [of "[]" "[(all_firing, ''expert'')]" all_firing "''discovery''"]
  obtain self r self' where
    a: "analyze_all (init []) [(all_firing, ''expert'')] = Inr self" and
    b: "analyze_profile self all_firing ''discovery'' = Inr (r, self')" and
    c: "ra_score (report_risk_assessment r) =
          min (sum_list (map score_impact (report_red_flags r))) 10"
    by blast
  from b have "report_red_flags r = all_flags all_firing"
    by (auto simp: analyze_profile_eq report_of_def)
  then have "sum_list (map score_impact (report_red_flags r)) = 17"
    using all_firing_flags by simp
  with a b c show ?thesis by auto
qed

text \<open>
  C2. On any instance, fresh or reused, and in every mode, the scenario record yields
  exactly the four flags \<open>geo_inconsistency\<close> (3), \<open>telegram_promotion\<close> (2),
  \<open>suspicious_bio\<close> (1, the one keyword found being \<open>signal\<close>) and \<open>like_fishing\<close>
  (2), in this order; no \<open>unbalanced_ratio\<close> and no \<open>coordinated_network\<close> flag. The
  score is 8 and the level is \<open>CRITICAL\<close>.
\<close>

theorem scenario_report:
  "\<exists>self r self'.
     analyze_all (init now) calls = Inr self \<and>
     analyze_profile self scenario m = Inr (r, self') \<and>
     report_red_flags r = scenario_flags \<and>
     map flag_type (report_red_flags r) =
       [''geo_inconsistency'', ''telegram_promotion'', ''suspicious_bio'', ''like_fishing''] \<and>
     map score_impact (report_red_flags r) = [3, 2, 1, 2] \<and>
     found_keywords_of scenario = [''signal''] \<and>
     red_flags_count (report_risk_assessment r) = 4 \<and>
     ra_score (report_risk_assessment r) = 8 \<and>
     level (report_risk_assessment r) = ''CRITICAL''"
proof -
  let ?self = "reused (init now) calls"
  have kw: "found_keywords_of scenario = [''signal'']"
    by code_simp
  have sc: "score (analyzed ?self scenario m) = 8"
    by (simp add: analyzed_def all_flags_scenario scenario_flags_def reused_fixed init_def)
  show ?thesis
    by (intro exI [of _ ?self] exI [of _ "report_of ?self scenario m"]
        exI [of _ "analyzed ?self scenario m"])
       (simp add: analyze_all_eq analyze_profile_eq report_of_def all_flags_scenario kw sc
          get_risk_level_def,
        simp add: scenario_flags_def)
qed

theorem scenario_report_witness:
  "\<exists>self r self'.
     analyze_all (init ''2025-01-01 00:00 UTC'') [] = Inr self \<and>
     analyze_profile self scenario ''discovery'' = Inr (r, self') \<and>
     map flag_type (report_red_flags r) =
       [''geo_inconsistency'', ''telegram_promotion'', ''suspicious_bio'', ''like_fishing''] \<and>
     ra_score (report_risk_assessment r) = 8 \<and>
     level (report_risk_assessment r) = ''CRITICAL''"
  using scenario_report [of "''2025-01-01 00:00 UTC''" "[]" "''discovery''"]
  by (elim exE conjE, intro exI conjI) assumption+






text \<open>
  C5. An analysis returns at most eight flags, at most one from each check: run on an
  instance that holds the record, each of the eight checks returns the instance with at
  most one flag appended, and the report's flags are these appended lists in detection
  order. The bio check puts all the keywords it found into the message of its single
  flag.
\<close>

theorem at_most_one_flag_per_check:
  "\<exists>r self' g a n t b f c l.
     analyze_profile self pd m = Inr (r, self') \<and>
     length (report_red_flags r) \<le> 8 \<and>
     red_flags_count (report_risk_assessment r) = length (report_red_flags r) \<and>
     report_red_flags r = g @ a @ n @ t @ b @ f @ c @ l \<and>
     check_geo_inconsistency (s\<lparr>profile_data := Some pd\<rparr>) =
       Inr (s\<lparr>profile_data := Some pd, red_flags := red_flags s @ g\<rparr>) \<and> length g \<le> 1 \<and>
     check_account_age (s\<lparr>profile_data := Some pd\<rparr>) =
       Inr (s\<lparr>profile_data := Some pd, red_flags := red_flags s @ a\<rparr>) \<and> length a \<le> 1 \<and>
     check_name_changes (s\<lparr>profile_data := Some pd\<rparr>) =
       Inr (s\<lparr>profile_data := Some pd, red_flags := red_flags s @ n\<rparr>) \<and> length n \<le> 1 \<and>
     check_telegram_links (s\<lparr>profile_data := Some pd\<rparr>) =
       Inr (s\<lparr>profile_data := Some pd, red_flags := red_flags s @ t\<rparr>) \<and> length t \<le> 1 \<and>
     check_suspicious_bio (s\<lparr>profile_data := Some pd\<rparr>) =
       Inr (s\<lparr>profile_data := Some pd, red_flags := red_flags s @ b\<rparr>) \<and> length b \<le> 1 \<and>
     check_follow_ratio (s\<lparr>profile_data := Some pd\<rparr>) =
       Inr (s\<lparr>profile_data := Some pd, red_flags := red_flags s @ f\<rparr>) \<and> length f \<le> 1 \<and>
     check_coordination_patterns (s\<lparr>profile_data := Some pd\<rparr>) =
       Inr (s\<lparr>profile_data := Some pd, red_flags := red_flags s @ c\<rparr>) \<and> length c \<le> 1 \<and>
     check_like_behavior (s\<lparr>profile_data := Some pd\<rparr>) =
       Inr (s\<lparr>profile_data := Some pd, red_flags := red_flags s @ l\<rparr>) \<and> length l \<le> 1 \<and>
     list_all (\<lambda>flag. message flag =
         [Lit ''Bio contains suspicious keywords: '',
          StrV (join '', '' (filter (contains (lower (dict_get (bio pd) []))) scam_keywords))])
       b"
proof -
  have bio_message: "list_all (\<lambda>flag. message flag =
         [Lit ''Bio contains suspicious keywords: '',
          StrV (join '', '' (filter (contains (lower (dict_get (bio pd) []))) scam_keywords))])
       (flags_suspicious_bio pd)"
    by (simp add: flags_suspicious_bio_def found_keywords_of_def)
  show ?thesis
    apply (rule exI [of _ "report_of self pd m"])
    apply (rule exI [of _ "analyzed self pd m"])
    apply (rule exI [of _ "flags_geo_inconsistency pd"])
    apply (rule exI [of _ "flags_account_age pd"])
    apply (rule exI [of _ "flags_name_changes pd"])
    apply (rule exI [of _ "flags_telegram_links pd"])
    apply (rule exI [of _ "flags_suspicious_bio pd"])
    apply (rule exI [of _ "flags_follow_ratio pd"])
    apply (rule exI [of _ "flags_coordination_patterns pd"])
    apply (rule exI [of _ "flags_like_behavior pd"])
    using length_all_flags [of pd] length_flags [of pd] bio_message
    by (simp add: analyze_profile_eq report_of_def all_flags_def
        check_geo_inconsistency_eq check_account_age_eq check_name_changes_eq
        check_telegram_links_eq check_suspicious_bio_eq check_follow_ratio_eq
        check_coordination_patterns_eq check_like_behavior_eq)
qed

theorem at_most_one_flag_per_check_witness:
  "\<exists>r self'.
     analyze_profile (init []) all_firing ''discovery'' = Inr (r, self') \<and>
     length (report_red_flags r) = 8 \<and>
     map message (filter (\<lambda>flag. flag_type flag = ''suspicious_bio'') (report_red_flags r)) =
       [[Lit ''Bio contains suspicious keywords: '', StrV ''alpha, signal, pump'']]"
proof -
  from at_most_one_flag_per_check [of "init []" all_firing "''discovery''" "init []"]
  obtain r self' where
    run: "analyze_profile (init []) all_firing ''discovery'' = Inr (r, self')" and
    "length (report_red_flags r) \<le> 8"
    by blast
  from run have flags: "report_red_flags r = all_flags all_firing"
    by (auto simp: analyze_profile_eq report_of_def)
  have types: "map flag_type (all_flags all_firing) =
     [''geo_inconsistency'', ''suspicious_growth'', ''identity_instability'',
      ''telegram_promotion'', ''suspicious_bio'', ''unbalanced_ratio'',
      ''coordinated_network'', ''like_fishing'']"
    using all_firing_flags by simp
  have "length (all_flags all_firing) = 8"
    using arg_cong [OF types, of length] by simp
  moreover have "map message (filter (\<lambda>flag. flag_type flag = ''suspicious_bio'')
      (all_flags all_firing)) =
       [[Lit ''Bio contains suspicious keywords: '', StrV ''alpha, signal, pump'']]"
    by code_simp
  ultimately show ?thesis
    using run flags by auto
qed

text \<open>
  C6. In an investigation report the view is the record with only the username
  changed: a username of at most four characters is kept as it is, a longer one
  becomes its first two characters, the three-character token \<open>***\<close>, and its last two
  characters. An absent username stays absent.
\<close>

theorem investigation_view:
  "\<exists>r self'.
     analyze_profile self pd ''investigation'' = Inr (r, self') \<and>
     report_profile r =
       pd\<lparr>username :=
            map_option
              (\<lambda>u. if length u \<le> 4 then u
                   else [u ! 0, u ! 1] @ ''***'' @ [u ! (length u - 2), u ! (length u - 1)])
              (username pd)\<rparr>"
proof -
  have "mask u =
      (if length u \<le> 4 then u
       else [u ! 0, u ! 1] @ ''***'' @ [u ! (length u - 2), u ! (length u - 1)])" for u
    using take_two [of u] drop_last_two [of u] by (simp add: mask_def)
  then have "mask =
      (\<lambda>u. if length u \<le> 4 then u
           else [u ! 0, u ! 1] @ ''***'' @ [u ! (length u - 2), u ! (length u - 1)])"
    by (rule ext)
  then show ?thesis
    by (simp add: analyze_profile_eq report_of_def profile_view_def partially_anonymized_def)
qed

theorem investigation_view_witness:
  "\<exists>r self' r' self''.
     analyze_profile (init []) (scenario\<lparr>username := Some ''@TestUser''\<rparr>) ''investigation'' =
       Inr (r, self') \<and>
     report_profile r = scenario\<lparr>username := Some ''@T***er''\<rparr> \<and>
     analyze_profile (init []) (scenario\<lparr>username := Some ''@Bob''\<rparr>) ''investigation'' =
       Inr (r', self'') \<and>
     report_profile r' = scenario\<lparr>username := Some ''@Bob''\<rparr>"
proof -
  from investigation_view [of "init []" "scenario\<lparr>username := Some ''@TestUser''\<rparr>"]
  obtain r self' where
    a: "analyze_profile (init []) (scenario\<lparr>username := Some ''@TestUser''\<rparr>) ''investigation'' =
       Inr (r, self')" and
    b: "report_profile r = scenario\<lparr>username := Some ''@T***er''\<rparr>"
    by auto
  from investigation_view [of "init []" "scenario\<lparr>username := Some ''@Bob''\<rparr>"]
  obtain r' self'' where
    c: "analyze_profile (init []) (scenario\<lparr>username := Some ''@Bob''\<rparr>) ''investigation'' =
       Inr (r', self'')" and
    d: "report_profile r' = scenario\<lparr>username := Some ''@Bob''\<rparr>"
    by auto
  from a b c d show ?thesis by blast
qed

text \<open>
  C7. The recommendations follow the fixed priority: two warnings first when the score
  is at least 6, then one string for each of the types \<open>geo_inconsistency\<close>,
  \<open>telegram_promotion\<close>, \<open>like_fishing\<close> that is present, in this order, and the single
  ``appears normal'' string when nothing else was added. They depend on the flags only
  through the set of their types, so not on the order of detection. This holds of the
  method on any instance, and of the report, whose recommendations are computed from
  the report's own score and flags.
\<close>

theorem recommendations_priority:
  "generate_recommendations self =
     recommended (score self) (set (map flag_type (red_flags self))) \<and>
   (\<exists>r self'.
      analyze_profile self pd m = Inr (r, self') \<and>
      recommendations r =
        recommended (ra_score (report_risk_assessment r))
          (set (map flag_type (report_red_flags r))))"
proof -
  have "recommendations (report_of self pd m) =
      recommended (ra_score (report_risk_assessment (report_of self pd m)))
        (set (map flag_type (report_red_flags (report_of self pd m))))"
    by (simp add: report_of_def generate_recommendations_eq analyzed_def)
  then show ?thesis
    by (simp add: generate_recommendations_eq analyze_profile_eq)
qed

theorem recommendations_priority_witness:
  "generate_recommendations
     ((init [])\<lparr>score := 7,
        red_flags := [\<lparr>flag_type = ''like_fishing'', severity = ''medium'', message = [],
                       score_impact = 2\<rparr>,
                      \<lparr>flag_type = ''geo_inconsistency'', severity = ''high'', message = [],
                       score_impact = 3\<rparr>]\<rparr>) =
     [''Avoid any financial interaction with this account'',
      ''Report if promoting scams or manipulation'',
      ''Verify geographical claims before trust'',
      ''Likes can be bait - check profile before engaging''] \<and>
   (\<exists>r self'.
      analyze_profile (init []) empty_profile ''discovery'' = Inr (r, self') \<and>
      recommendations r = [''Profile appears normal - maintain standard vigilance''])"
proof -
  let ?self = "(init [])\<lparr>score := 7,
        red_flags := [\<lparr>flag_type = ''like_fishing'', severity = ''medium'', message = [],
                       score_impact = 2\<rparr>,
                      \<lparr>flag_type = ''geo_inconsistency'', severity = ''high'', message = [],
                       score_impact = 3\<rparr>]\<rparr>"
  have a: "generate_recommendations ?self =
     [''Avoid any financial interaction with this account'',
      ''Report if promoting scams or manipulation'',
      ''Verify geographical claims before trust'',
      ''Likes can be bait - check profile before engaging'']"
    using recommendations_priority [of ?self empty_profile "''discovery''"]
    by (simp add: recommended_def)
  from recommendations_priority [of "init []" empty_profile "''discovery''"]
  obtain r self' where
    run: "analyze_profile (init []) empty_profile ''discovery'' = Inr (r, self')" and
    recs: "recommendations r =
        recommended (ra_score (report_risk_assessment r))
          (set (map flag_type (report_red_flags r)))"
    by blast
  from run have "report_red_flags r = []" "ra_score (report_risk_assessment r) = 0"
    by (auto simp: analyze_profile_eq report_of_def analyzed_def all_flags_empty_profile
        init_def)
  with recs have "recommendations r = [''Profile appears normal - maintain standard vigilance'']"
    by (simp add: recommended_def)
  with a run show ?thesis by blast
qed

text \<open>
  C8. Every call resets \<open>red_flags\<close> and \<open>score\<close>, so earlier analyses leave no trace
  in a report. On one instance, in whatever state, a call repeated after any sequence
  of other calls returns the same report, timestamp included (the timestamp is taken
  once, when the instance is created). On two instances created at different times
  and reused in different ways, the two reports for the same record and mode agree in
  everything but the timestamp.
\<close>

theorem repeated_call_same_report:
  "(\<exists>r\<^sub>1 self\<^sub>1 self\<^sub>2 r\<^sub>2 self\<^sub>3.
      analyze_profile self pd m = Inr (r\<^sub>1, self\<^sub>1) \<and>
      analyze_all self\<^sub>1 calls = Inr self\<^sub>2 \<and>
      analyze_profile self\<^sub>2 pd m = Inr (r\<^sub>2, self\<^sub>3) \<and>
      r\<^sub>2 = r\<^sub>1) \<and>
   (\<exists>a b r\<^sub>a self\<^sub>a r\<^sub>b self\<^sub>b.
      analyze_all (init now) calls\<^sub>a = Inr a \<and>
      analyze_all (init now') calls\<^sub>b = Inr b \<and>
      analyze_profile a pd m = Inr (r\<^sub>a, self\<^sub>a) \<and>
      analyze_profile b pd m = Inr (r\<^sub>b, self\<^sub>b) \<and>
      r\<^sub>b = r\<^sub>a\<lparr>report_meta := (report_meta r\<^sub>a)\<lparr>meta_analysis_date := now'\<rparr>\<rparr>)"
proof -
  have same: "report_of (reused (analyzed self pd m) calls) pd m = report_of self pd m"
    by (rule report_of_cong) (simp_all add: reused_fixed analyzed_fixed)
  have other: "report_of (reused (init now') calls\<^sub>b) pd m =
      (report_of (reused (init now) calls\<^sub>a) pd m)
        \<lparr>report_meta := (report_meta (report_of (reused (init now) calls\<^sub>a) pd m))
           \<lparr>meta_analysis_date := now'\<rparr>\<rparr>"
    using report_of_date [of "reused (init now) calls\<^sub>a" "reused (init now') calls\<^sub>b" pd m]
    by (simp add: reused_fixed init_def)
  show ?thesis
    using same other by (simp add: analyze_profile_eq analyze_all_eq)
qed

theorem repeated_call_same_report_witness:
  "(\<exists>r\<^sub>1 self\<^sub>1 self\<^sub>2 r\<^sub>2 self\<^sub>3.
      analyze_profile (init ''2025-01-01 00:00 UTC'') scenario ''discovery'' = Inr (r\<^sub>1, self\<^sub>1) \<and>
      analyze_all self\<^sub>1 [(all_firing, ''expert''), (empty_profile, ''investigation'')] =
        Inr self\<^sub>2 \<and>
      analyze_profile self\<^sub>2 scenario ''discovery'' = Inr (r\<^sub>2, self\<^sub>3) \<and>
      r\<^sub>2 = r\<^sub>1) \<and>
   (\<exists>a b r\<^sub>a self\<^sub>a r\<^sub>b self\<^sub>b.
      analyze_all (init ''2025-01-01 00:00 UTC'') [] = Inr a \<and>
      analyze_all (init ''2025-06-30 12:00 UTC'') [(all_firing, ''expert'')] = Inr b \<and>
      analyze_profile a scenario ''discovery'' = Inr (r\<^sub>a, self\<^sub>a) \<and>
      analyze_profile b scenario ''discovery'' = Inr (r\<^sub>b, self\<^sub>b) \<and>
      r\<^sub>b = r\<^sub>a\<lparr>report_meta :=
                (report_meta r\<^sub>a)\<lparr>meta_analysis_date := ''2025-06-30 12:00 UTC''\<rparr>\<rparr>)"
  by (rule repeated_call_same_report [of "init ''2025-01-01 00:00 UTC''" scenario
        "''discovery''" "[(all_firing, ''expert''), (empty_profile, ''investigation'')]"
        "''2025-01-01 00:00 UTC''" "[]" "''2025-06-30 12:00 UTC''"
        "[(all_firing, ''expert'')]"])



text \<open>
  C10. For a mode string that is neither \<open>discovery\<close> nor \<open>investigation\<close>, whatever
  it is, the view of the report is the record itself, as in expert mode. The disclaimer
  is the multi-line expert text exactly when the mode is the string \<open>expert\<close>, and the
  one-line educational text for every other mode, the unknown ones included.
\<close>

theorem unknown_mode_full_view:
  "(m \<noteq> ''discovery'' \<and> m \<noteq> ''investigation'' \<longrightarrow>
      (\<exists>r self' r\<^sub>e self\<^sub>e.
         analyze_profile self pd m = Inr (r, self') \<and>
         analyze_profile self pd ''expert'' = Inr (r\<^sub>e, self\<^sub>e) \<and>
         report_profile r = pd \<and> report_profile r\<^sub>e = pd \<and>
         r = r\<^sub>e\<lparr>report_meta := (report_meta r\<^sub>e)
               \<lparr>meta_mode := m, disclaimer := disclaimer (report_meta r)\<rparr>\<rparr>)) \<and>
   (\<exists>r self'.
      analyze_profile self pd m = Inr (r, self') \<and>
      disclaimer (report_meta r) =
        (if m = ''expert'' then expert_disclaimer else educational_disclaimer)) \<and>
   expert_disclaimer \<noteq> educational_disclaimer \<and>
   CHR 0x0A \<in> set expert_disclaimer \<and> CHR 0x0A \<notin> set educational_disclaimer"
proof -
  have "expert_disclaimer \<noteq> educational_disclaimer"
    using disclaimers_differ by metis
  then show ?thesis
    using disclaimers_differ
    by (simp add: analyze_profile_eq report_of_def profile_view_def analyzed_def
        get_risk_level_def generate_recommendations_eq)
qed

theorem unknown_mode_full_view_witness:
  "\<exists>r self'.
     analyze_profile (init []) scenario ''exprt'' = Inr (r, self') \<and>
     report_profile r = scenario \<and>
     disclaimer (report_meta r) = educational_disclaimer"
proof -
  have "''exprt'' \<noteq> ''discovery'' \<and> ''exprt'' \<noteq> ''investigation''"
    by simp
  with unknown_mode_full_view [of "''exprt''" "init []" scenario]
  obtain r self' where
    run: "analyze_profile (init []) scenario ''exprt'' = Inr (r, self')" and
    view: "report_profile r = scenario"
    by blast
  from unknown_mode_full_view [of "''exprt''" "init []" scenario]
  obtain r' self'' where
    run': "analyze_profile (init []) scenario ''exprt'' = Inr (r', self'')" and
    disc: "disclaimer (report_meta r') =
        (if ''exprt'' = ''expert'' then expert_disclaimer else educational_disclaimer)"
    by blast
  from run run' have "r' = r" by simp
  with disc have "disclaimer (report_meta r) = educational_disclaimer"
    by simp
  with run view show ?thesis by blast
qed

end
